theory Spec2Isabelle
  imports Main "HOL-Library.AList" "HOL-Library.Word"
begin

section \<open>JavaScript values\<close>

text \<open>
  A value of type \<^verbatim>\<open>string | undefined\<close> is a \<^typ>\<open>string option\<close>, a value of type
  \<^verbatim>\<open>boolean | undefined\<close> a \<^typ>\<open>bool option\<close>; \<open>None\<close> is \<^verbatim>\<open>undefined\<close>.
  The conditions of the source test truthiness: \<^verbatim>\<open>undefined\<close>, \<^verbatim>\<open>false\<close> and the empty
  string are falsy.
\<close>

definition truthyString :: "string option \<Rightarrow> bool" where
  "truthyString v = (case v of None \<Rightarrow> False | Some s \<Rightarrow> s \<noteq> [])"

definition truthyBool :: "bool option \<Rightarrow> bool" where
  "truthyBool v = (case v of None \<Rightarrow> False | Some b \<Rightarrow> b)"

text \<open>A template literal prints \<^verbatim>\<open>undefined\<close> as the word itself.\<close>

definition templateString :: "string option \<Rightarrow> string" where
  "templateString v = (case v of None \<Rightarrow> ''undefined'' | Some s \<Rightarrow> s)"

text \<open>
  \<^verbatim>\<open>court\<close> is a JavaScript number. The model keeps the integers \<open>n\<close> with
  \<open>- 2 ^ 53 \<le> n < 2 ^ 53\<close>, as a 54-bit word read as a signed value: a number holds each of
  them exactly and a template literal prints it in decimal, with a leading minus sign for a
  negative one. Fractions, larger magnitudes (which lose digits and, from \<open>10 ^ 21\<close> on, print
  in exponent notation), NaN and the infinities are not values of the type.
\<close>

fun digitsOf :: "nat \<Rightarrow> string" where
  "digitsOf n =
     (if n < 10 then [''0123456789'' ! n]
      else digitsOf (n div 10) @ [''0123456789'' ! (n mod 10)])"

definition numberToString :: "54 word \<Rightarrow> string" where
  "numberToString c =
     (if sint c < 0 then CHR ''-'' # digitsOf (nat (- sint c)) else digitsOf (nat (sint c)))"

text \<open>
  An awaited promise settles: it resolves or it rejects. Both carry the state the
  asynchronous function had reached, since what it wrote before rejecting stays written.
\<close>

datatype 's Settled = Resolved 's | Rejected 's

fun settledState :: "'s Settled \<Rightarrow> 's" where
  "settledState (Resolved s) = s"
| "settledState (Rejected s) = s"

section \<open>The subscription store\<close>

text \<open>
  \<^verbatim>\<open>FollowingQueries.tsx\<close>. A document of \<^verbatim>\<open>/users/{uid}/activeTopicSubscriptions/\<close> holds
  the fields \<^verbatim>\<open>followTopic\<close> spreads into it: \<^verbatim>\<open>uid\<close>, \<^verbatim>\<open>topicName\<close>, \<^verbatim>\<open>type\<close> and one of
  \<^verbatim>\<open>billLookup\<close>, \<^verbatim>\<open>userLookup\<close>. A user lookup has the two shapes the source uses:
  \<^verbatim>\<open>{profileId}\<close> (written by the follow button) and \<^verbatim>\<open>{uid}\<close> (written by the followers
  tab that queries the store).
\<close>

record BillItem =
  court :: "54 word"
  billId :: string

record UserLookup =
  lookupProfileId :: "string option"
  lookupUid :: "string option"

record SubscriptionDoc =
  docUid :: "string option"
  docTopicName :: "string option"
  docType :: string
  docBillLookup :: "BillItem option"
  docUserLookup :: "UserLookup option"

text \<open>
  Modelled from the spec: the document store, which the sources reach through the Firestore
  client library and the \<^verbatim>\<open>firestore\<close> instance of \<^verbatim>\<open>../firebase\<close>. Documents are addressed by
  collection path and document id, \<^verbatim>\<open>setDoc\<close> is an idempotent upsert, \<^verbatim>\<open>deleteDoc\<close> an
  idempotent delete, \<^verbatim>\<open>getDocs\<close> returns the documents of one collection that satisfy the
  equality filters of the query. The list keeps the documents in the order they were first
  written; no caller relies on an order. A write is applied when it is issued; a write the
  store rejects is outside the model.
\<close>

type_synonym Firestore = "((string \<times> string) \<times> SubscriptionDoc) list"

definition setDoc :: "string \<Rightarrow> string \<Rightarrow> SubscriptionDoc \<Rightarrow> Firestore \<Rightarrow> Firestore" where
  "setDoc coll docId d fs = AList.update (coll, docId) d fs"

definition deleteDoc :: "string \<Rightarrow> string \<Rightarrow> Firestore \<Rightarrow> Firestore" where
  "deleteDoc coll docId fs = AList.delete (coll, docId) fs"

definition getDocs :: "string \<Rightarrow> (SubscriptionDoc \<Rightarrow> bool) \<Rightarrow> Firestore \<Rightarrow> SubscriptionDoc list" where
  "getDocs coll wh fs = map snd (filter (\<lambda>kd. fst (fst kd) = coll \<and> wh (snd kd)) fs)"

text \<open>Every write the client issues is also logged, whatever the store makes of it.\<close>

datatype StoreCall =
  SetDoc string string SubscriptionDoc
| DeleteDoc string string

text \<open>
  Modelled from the spec: \<^verbatim>\<open>FollowContext\<close> (imported from \<^verbatim>\<open>./FollowContext\<close>, absent from
  the sources) provides \<^verbatim>\<open>followStatus\<close>, one map from topic name to boolean shared by every
  follow button, and its setter \<^verbatim>\<open>setFollowStatus\<close>, which applies an updater to the
  previous map.

  The world a follow button acts on holds that map, the store, the log of the writes
  issued against the store, and the state of the component that supplied the \<^verbatim>\<open>onFollow\<close>
  and \<^verbatim>\<open>onUnfollow\<close> hooks (the only state the hooks of this repository touch).
\<close>

record 'o World =
  firestore :: Firestore
  storeCalls :: "StoreCall list"
  followStatus :: "string \<Rightarrow> bool option"
  outer :: 'o

definition setFollowStatus ::
  "((string \<Rightarrow> bool option) \<Rightarrow> (string \<Rightarrow> bool option)) \<Rightarrow> 'o World \<Rightarrow> 'o World" where
  "setFollowStatus updater w = w\<lparr>followStatus := updater (followStatus w)\<rparr>"

definition setSubscriptionRef :: "string option \<Rightarrow> string" where
  "setSubscriptionRef uid = ''/users/'' @ templateString uid @ ''/activeTopicSubscriptions/''"

datatype TopicData = BillLookupData BillItem | UserLookupData string

text \<open>\<^verbatim>\<open>{ ...props, ...data }\<close>: the document \<^verbatim>\<open>followTopic\<close> writes.\<close>

definition topicDoc :: "string option \<Rightarrow> string \<Rightarrow> string \<Rightarrow> TopicData \<Rightarrow> SubscriptionDoc" where
  "topicDoc uid topicName kind tdata =
     \<lparr>docUid = uid, docTopicName = Some topicName, docType = kind,
      docBillLookup = (case tdata of BillLookupData b \<Rightarrow> Some b | UserLookupData p \<Rightarrow> None),
      docUserLookup = (case tdata of BillLookupData b \<Rightarrow> None
         | UserLookupData p \<Rightarrow> Some \<lparr>lookupProfileId = Some p, lookupUid = None\<rparr>)\<rparr>"

definition followTopic :: "string option \<Rightarrow> string \<Rightarrow> string \<Rightarrow> TopicData \<Rightarrow> 'o World \<Rightarrow> 'o World" where
  "followTopic uid topicName kind tdata w =
     (let subscriptionRef = setSubscriptionRef uid;
          d = topicDoc uid topicName kind tdata
      in w\<lparr>firestore := setDoc subscriptionRef topicName d (firestore w),
            storeCalls := storeCalls w @ [SetDoc subscriptionRef topicName d]\<rparr>)"

definition unfollowTopic :: "string option \<Rightarrow> string \<Rightarrow> 'o World \<Rightarrow> 'o World" where
  "unfollowTopic uid topicName w =
     (let subscriptionRef = setSubscriptionRef uid
      in w\<lparr>firestore := deleteDoc subscriptionRef topicName (firestore w),
            storeCalls := storeCalls w @ [DeleteDoc subscriptionRef topicName]\<rparr>)"

text \<open>
  \<^verbatim>\<open>TopicQuery\<close> starts from the empty string and assigns the \<^verbatim>\<open>topicName\<close> field of every
  document the query returns. \<^verbatim>\<open>Boolean(result)\<close> is the truthiness of what is left.
\<close>

definition TopicQuery :: "string option \<Rightarrow> string \<Rightarrow> Firestore \<Rightarrow> string option" where
  "TopicQuery uid topicName fs =
     foldl (\<lambda>result d. docTopicName d) (Some [])
       (getDocs (setSubscriptionRef uid) (\<lambda>d. docTopicName d = Some topicName) fs)"

text \<open>
  Every document \<^verbatim>\<open>followTopic\<close> writes has its \<^verbatim>\<open>topicName\<close> as its id. A store is regular
  when each of its documents that has a \<^verbatim>\<open>topicName\<close> field is stored under that name.
\<close>

definition idIsTopicName :: "Firestore \<Rightarrow> bool" where
  "idIsTopicName fs =
     list_all (\<lambda>kd. case docTopicName (snd kd) of None \<Rightarrow> True | Some t \<Rightarrow> t = snd (fst kd)) fs"

section \<open>The follow button\<close>

text \<open>
  \<^verbatim>\<open>FollowButton.tsx\<close>. \<^verbatim>\<open>BaseFollowButtonProps\<close> are the optional props a caller passes;
  \<^verbatim>\<open>BaseFollowButton\<close> takes them with \<^verbatim>\<open>topicName\<close> added. The hooks are asynchronous
  functions on the state \<open>'s\<close> of whoever supplies them. (\<^verbatim>\<open>displayName\<close> only feeds the
  text of the confirmation dialog and is left out.)
\<close>

record 's BaseFollowButtonProps =
  onFollow :: "('s \<Rightarrow> 's Settled) option"
  onUnfollow :: "('s \<Rightarrow> 's Settled) option"
  confirmFollow :: "bool option"
  confirmUnfollow :: "bool option"
  hide :: "bool option"

record 's BaseFollowButton = "'s BaseFollowButtonProps" +
  topicName :: string

text \<open>\<^verbatim>\<open>if (hook) await hook()\<close>\<close>

definition awaitHook :: "('s \<Rightarrow> 's Settled) option \<Rightarrow> 's \<Rightarrow> 's Settled" where
  "awaitHook hook s = (case hook of None \<Rightarrow> Resolved s | Some h \<Rightarrow> h s)"

text \<open>A hook of the caller runs on the caller's state inside the world.\<close>

definition awaitOuterHook :: "('o \<Rightarrow> 'o Settled) option \<Rightarrow> 'o World \<Rightarrow> 'o World Settled" where
  "awaitOuterHook hook w =
     (case awaitHook hook (outer w) of
        Resolved st \<Rightarrow> Resolved (w\<lparr>outer := st\<rparr>)
      | Rejected st \<Rightarrow> Rejected (w\<lparr>outer := st\<rparr>))"

text \<open>
  The effect on mount. With a session it issues \<^verbatim>\<open>TopicQuery(uid, topicName)\<close>; the store
  answers from the state it has when it serves the read, and the \<^verbatim>\<open>then\<close> callback runs
  when the response arrives. Without a session nothing is issued.
\<close>

definition mountEffect :: "string option \<Rightarrow> string \<Rightarrow> (string option \<times> string) option" where
  "mountEffect uid topic = (if truthyString uid then Some (uid, topic) else None)"

definition onTopicQueryResult :: "string \<Rightarrow> string option \<Rightarrow> 'o World \<Rightarrow> 'o World" where
  "onTopicQueryResult topic result w =
     setFollowStatus (\<lambda>prevOrgFollowGroup. prevOrgFollowGroup(topic \<mapsto> truthyString result)) w"

definition isFollowing :: "('o World) BaseFollowButton \<Rightarrow> 'o World \<Rightarrow> bool option" where
  "isFollowing b w = followStatus w (topicName b)"

definition wantsConfirm :: "('o World) BaseFollowButton \<Rightarrow> 'o World \<Rightarrow> bool option" where
  "wantsConfirm b w = (if truthyBool (isFollowing b w) then confirmUnfollow b else confirmFollow b)"

text \<open>
  \<^verbatim>\<open>toggleFollow\<close> awaits the hook of its direction and then updates the status map; when
  the hook rejects, the update is not reached. The handlers are those of the latest render,
  so the \<^verbatim>\<open>isFollowing\<close> they test is the entry of the current map. A toggle runs to its
  end before the next event is handled: the hooks the tabs supply settle at once.
\<close>

definition toggleFollow :: "('o World) BaseFollowButton \<Rightarrow> 'o World \<Rightarrow> 'o World Settled" where
  "toggleFollow b w =
     (if truthyBool (isFollowing b w) then
        (case awaitHook (onUnfollow b) w of
           Rejected w' \<Rightarrow> Rejected w'
         | Resolved w' \<Rightarrow> Resolved (setFollowStatus (\<lambda>prev. prev(topicName b \<mapsto> False)) w'))
      else
        (case awaitHook (onFollow b) w of
           Rejected w' \<Rightarrow> Rejected w'
         | Resolved w' \<Rightarrow> Resolved (setFollowStatus (\<lambda>prev. prev(topicName b \<mapsto> True)) w')))"

text \<open>
  The handlers of the rendered elements act on the world and on the button's own
  \<^verbatim>\<open>showModal\<close> flag. The button (and so \<open>onClick\<close>) exists only when \<^verbatim>\<open>hide\<close> is falsy.
\<close>

definition onClick ::
  "('o World) BaseFollowButton \<Rightarrow> 'o World \<times> bool \<Rightarrow> ('o World \<times> bool) Settled" where
  "onClick b ws =
     (if truthyBool (wantsConfirm b (fst ws)) then Resolved (fst ws, True)
      else (case toggleFollow b (fst ws) of
              Rejected w' \<Rightarrow> Rejected (w', snd ws)
            | Resolved w' \<Rightarrow> Resolved (w', snd ws)))"

definition onConfirm ::
  "('o World) BaseFollowButton \<Rightarrow> 'o World \<times> bool \<Rightarrow> ('o World \<times> bool) Settled" where
  "onConfirm b ws =
     (case toggleFollow b (fst ws) of
        Rejected w' \<Rightarrow> Rejected (w', snd ws)
      | Resolved w' \<Rightarrow> Resolved (w', False))"

definition onDeny ::
  "('o World) BaseFollowButton \<Rightarrow> 'o World \<times> bool \<Rightarrow> ('o World \<times> bool) Settled" where
  "onDeny b ws = Resolved (fst ws, False)"

text \<open>
  What the component renders: the button, if any, with the key of its label and whether
  the check mark is shown, and the confirmation dialog's \<^verbatim>\<open>show\<close> and \<^verbatim>\<open>action\<close>.
\<close>

record Rendered =
  renderedButton :: "(string \<times> bool) option"
  modalShow :: bool
  modalAction :: string

definition render :: "('o World) BaseFollowButton \<Rightarrow> 'o World \<times> bool \<Rightarrow> Rendered" where
  "render b ws =
     \<lparr>renderedButton =
        (if \<not> truthyBool (hide b) then
           Some (''button.follow.'' @ (if truthyBool (isFollowing b (fst ws)) then ''following'' else ''follow''),
                 truthyBool (isFollowing b (fst ws)))
         else None),
      modalShow = snd ws,
      modalAction = (if truthyBool (isFollowing b (fst ws)) then ''unfollow'' else ''follow'')\<rparr>"

record UserItem =
  profileId :: string
  fullName :: "string option"

definition FollowUserButton ::
  "string option \<Rightarrow> UserItem \<Rightarrow> 'o BaseFollowButtonProps \<Rightarrow> ('o World) BaseFollowButton" where
  "FollowUserButton uid item rest =
     (let topic = ''testimony-'' @ profileId item
      in \<lparr>onFollow = Some (\<lambda>w. awaitOuterHook (onFollow rest)
             (followTopic uid topic ''testimony'' (UserLookupData (profileId item)) w)),
          onUnfollow = Some (\<lambda>w. awaitOuterHook (onUnfollow rest) (unfollowTopic uid topic w)),
          confirmFollow = confirmFollow rest,
          confirmUnfollow = confirmUnfollow rest,
          hide = hide rest,
          topicName = topic\<rparr>)"

definition FollowBillButton ::
  "string option \<Rightarrow> BillItem \<Rightarrow> 'o BaseFollowButtonProps \<Rightarrow> ('o World) BaseFollowButton" where
  "FollowBillButton uid item rest =
     (let topic = ''bill-'' @ numberToString (court item) @ ''-'' @ billId item
      in \<lparr>onFollow = Some (\<lambda>w. awaitOuterHook (onFollow rest)
             (followTopic uid topic ''bill''
                (BillLookupData \<lparr>court = court item, billId = billId item\<rparr>) w)),
          onUnfollow = Some (\<lambda>w. awaitOuterHook (onUnfollow rest) (unfollowTopic uid topic w)),
          confirmFollow = confirmFollow rest,
          confirmUnfollow = confirmUnfollow rest,
          hide = hide rest,
          topicName = topic\<rparr>)"

section \<open>The followers tab\<close>

text \<open>
  \<^verbatim>\<open>EditProfilePage/FollowersTab.tsx\<close>. The response of the \<^verbatim>\<open>getFollowers\<close> call is
  \<open>Inr data\<close>, a rejection \<open>Inl err\<close>. The state keeps what the component can be observed
  to do: its \<^verbatim>\<open>followerIds\<close>, the arguments \<^verbatim>\<open>setFollowerCount\<close> was invoked with, in order,
  and what was written to \<^verbatim>\<open>console.error\<close>.
\<close>

record 'e FollowersTabState =
  followerIds :: "string list"
  followerCountCalls :: "nat list"
  consoleErrors :: "(string \<times> 'e) list"

definition followersTabMount :: "'e FollowersTabState" where
  "followersTabMount = \<lparr>followerIds = [], followerCountCalls = [], consoleErrors = []\<rparr>"

definition fetchFollowers ::
  "'e + string list \<Rightarrow> 'e FollowersTabState \<Rightarrow> 'e FollowersTabState Settled" where
  "fetchFollowers response st =
     (case response of
        Inr rdata \<Rightarrow>
          Resolved (st\<lparr>followerIds := rdata,
                       followerCountCalls := followerCountCalls st @ [length rdata]\<rparr>)
      | Inl err \<Rightarrow>
          Resolved (st\<lparr>consoleErrors := consoleErrors st @ [(''Error fetching followerIds'', err)]\<rparr>))"

definition followersTabEffect ::
  "string option \<Rightarrow> 'e + string list \<Rightarrow> 'e FollowersTabState \<Rightarrow> 'e FollowersTabState Settled" where
  "followersTabEffect uid response st =
     (if truthyString uid then fetchFollowers response st else Resolved st)"

definition followersTabItems :: "'e FollowersTabState \<Rightarrow> UserItem list" where
  "followersTabItems st = map (\<lambda>p. \<lparr>profileId = p, fullName = None\<rparr>) (followerIds st)"

text \<open>The effect run once for each response of a list, from left to right.\<close>

fun followersTabRun ::
  "string option \<Rightarrow> ('e + string list) list \<Rightarrow> 'e FollowersTabState \<Rightarrow> 'e FollowersTabState Settled" where
  "followersTabRun uid [] st = Resolved st"
| "followersTabRun uid (r # rs) st =
     (case followersTabEffect uid r st of
        Rejected st' \<Rightarrow> Rejected st'
      | Resolved st' \<Rightarrow> followersTabRun uid rs st')"

subsection \<open>The variant that queries the store\<close>

text \<open>
  The second \<^verbatim>\<open>FollowersTab\<close> of the sources reads two query snapshots, which are the
  inputs of its two effects: the documents whose \<^verbatim>\<open>userLookup\<close> become the \<^verbatim>\<open>followers\<close>
  list, and the session's own subscriptions, whose \<^verbatim>\<open>userLookup.uid\<close> become \<^verbatim>\<open>iFollowSet\<close>.
  Without a session neither query exists and the effects return at once. A document
  without \<^verbatim>\<open>userLookup\<close> puts \<^verbatim>\<open>undefined\<close> in the list; reading a property of it throws.
\<close>

record StoreFollowersTabState =
  iFollowSet :: "string option set"
  followers :: "UserLookup option list"

definition storeFollowersTabMount :: StoreFollowersTabState where
  "storeFollowersTabMount = \<lparr>iFollowSet = {}, followers = []\<rparr>"

definition followersQueryEffect ::
  "string option \<Rightarrow> SubscriptionDoc list \<Rightarrow> StoreFollowersTabState \<Rightarrow> StoreFollowersTabState" where
  "followersQueryEffect uid qs st =
     (if \<not> truthyString uid then st else st\<lparr>followers := map docUserLookup qs\<rparr>)"

fun followedIds :: "SubscriptionDoc list \<Rightarrow> string option set \<Rightarrow> string option set option" where
  "followedIds [] ids = Some ids"
| "followedIds (d # ds) ids =
     (case docUserLookup d of
        None \<Rightarrow> None
      | Some l \<Rightarrow> followedIds ds (insert (lookupUid l) ids))"

definition myFollowsQueryEffect ::
  "string option \<Rightarrow> SubscriptionDoc list \<Rightarrow> StoreFollowersTabState \<Rightarrow> StoreFollowersTabState Settled" where
  "myFollowsQueryEffect uid qs st =
     (if \<not> truthyString uid then Resolved st
      else (case followedIds qs {} of
              None \<Rightarrow> Rejected st
            | Some ids \<Rightarrow> Resolved (st\<lparr>iFollowSet := ids\<rparr>)))"

text \<open>The props of one rendered \<^verbatim>\<open>FollowedItem\<close>; \<open>None\<close> for the whole list is the TypeError.\<close>

record FollowedItemProps =
  itemKey :: "string option"
  element :: UserLookup
  alreadyFollowing :: bool

fun followedItems :: "string option set \<Rightarrow> UserLookup option list \<Rightarrow> FollowedItemProps list option" where
  "followedItems ids [] = Some []"
| "followedItems ids (None # es) = None"
| "followedItems ids (Some e # es) =
     (case followedItems ids es of
        None \<Rightarrow> None
      | Some rows \<Rightarrow>
          Some (\<lparr>itemKey = lookupProfileId e, element = e,
                 alreadyFollowing = (lookupProfileId e \<in> ids)\<rparr> # rows))"

definition storeFollowersTabRender :: "StoreFollowersTabState \<Rightarrow> FollowedItemProps list option" where
  "storeFollowersTabRender st = followedItems (iFollowSet st) (followers st)"

section \<open>The following tab\<close>

text \<open>
  \<^verbatim>\<open>EditProfilePage/FollowingTab.tsx\<close>. \<^verbatim>\<open>billsFollowingQuery\<close> and \<^verbatim>\<open>orgsFollowingQuery\<close> are
  callbacks created per render: the \<^verbatim>\<open>billsFollowing\<close> (\<^verbatim>\<open>usersFollowing\<close>) their guard reads
  after the \<^verbatim>\<open>await\<close> is the list of the render that created them. Every call of a
  callback gets the next number; \<^verbatim>\<open>billQueries\<close> (\<^verbatim>\<open>userQueries\<close>) holds, under the number of
  each call, the list the call captured while it is in flight and \<open>None\<close> once it has been
  answered. The response resumes the call with the fetched list. Without a session
  \<^verbatim>\<open>subscriptionRef\<close> is null and the callback returns at once.
\<close>

record ('b, 'u) FollowingTabState =
  billsFollowing :: "'b list"
  usersFollowing :: "'u list"
  billQueries :: "'b list option list"
  userQueries :: "'u list option list"

definition followingTabMount :: "('b, 'u) FollowingTabState" where
  "followingTabMount = \<lparr>billsFollowing = [], usersFollowing = [], billQueries = [], userQueries = []\<rparr>"

definition billsFollowingQuery ::
  "string option \<Rightarrow> ('b, 'u) FollowingTabState \<Rightarrow> ('b, 'u) FollowingTabState" where
  "billsFollowingQuery uid st =
     (if \<not> truthyString uid then st
      else st\<lparr>billQueries := billQueries st @ [Some (billsFollowing st)]\<rparr>)"

definition orgsFollowingQuery ::
  "string option \<Rightarrow> ('b, 'u) FollowingTabState \<Rightarrow> ('b, 'u) FollowingTabState" where
  "orgsFollowingQuery uid st =
     (if \<not> truthyString uid then st
      else st\<lparr>userQueries := userQueries st @ [Some (usersFollowing st)]\<rparr>)"

text \<open>The snapshots the two queries read from the store.\<close>

definition billListOf :: "string option \<Rightarrow> Firestore \<Rightarrow> BillItem option list" where
  "billListOf uid fs =
     map docBillLookup
       (getDocs (''/users/'' @ templateString uid @ ''/activeTopicSubscriptions/'')
          (\<lambda>d. docUid d = Some (templateString uid) \<and> docType d = ''bill'') fs)"

definition usersListOf :: "string option \<Rightarrow> Firestore \<Rightarrow> UserLookup option list" where
  "usersListOf uid fs =
     map docUserLookup
       (getDocs (''/users/'' @ templateString uid @ ''/activeTopicSubscriptions/'')
          (\<lambda>d. docUid d = Some (templateString uid) \<and> docType d = ''testimony'') fs)"

text \<open>
  The rest of the callback, once \<^verbatim>\<open>getDocs\<close> has answered call \<open>i\<close> with \<open>billList\<close>. A call
  is answered once.
\<close>

definition billsFollowingResume ::
  "nat \<Rightarrow> 'b list \<Rightarrow> ('b, 'u) FollowingTabState \<Rightarrow> ('b, 'u) FollowingTabState" where
  "billsFollowingResume i billList st =
     (if i < length (billQueries st) then
        (case billQueries st ! i of
           None \<Rightarrow> st
         | Some captured \<Rightarrow>
             (let st' = st\<lparr>billQueries := (billQueries st)[i := None]\<rparr>
              in if length captured = 0 \<and> length billList \<noteq> 0
                 then st'\<lparr>billsFollowing := billList\<rparr> else st'))
      else st)"

definition orgsFollowingResume ::
  "nat \<Rightarrow> 'u list \<Rightarrow> ('b, 'u) FollowingTabState \<Rightarrow> ('b, 'u) FollowingTabState" where
  "orgsFollowingResume i usersList st =
     (if i < length (userQueries st) then
        (case userQueries st ! i of
           None \<Rightarrow> st
         | Some captured \<Rightarrow>
             (let st' = st\<lparr>userQueries := (userQueries st)[i := None]\<rparr>
              in if length captured = 0 \<and> length usersList \<noteq> 0
                 then st'\<lparr>usersFollowing := usersList\<rparr> else st'))
      else st)"

text \<open>
  The effect without dependencies runs after every render; \<^verbatim>\<open>fetchFollowedItems\<close> runs
  when a list or a callback changed.
\<close>

definition everyRenderEffect ::
  "string option \<Rightarrow> ('b, 'u) FollowingTabState \<Rightarrow> ('b, 'u) FollowingTabState" where
  "everyRenderEffect uid st = (if truthyString uid then billsFollowingQuery uid st else st)"

definition fetchFollowedItems ::
  "string option \<Rightarrow> ('b, 'u) FollowingTabState \<Rightarrow> ('b, 'u) FollowingTabState" where
  "fetchFollowedItems uid st =
     (if truthyString uid then orgsFollowingQuery uid (billsFollowingQuery uid st) else st)"

text \<open>The \<^verbatim>\<open>onUnfollow\<close> hooks the tab hands to the buttons of its two cards.\<close>

definition onUnfollowBill ::
  "('b, 'u) FollowingTabState \<Rightarrow> ('b, 'u) FollowingTabState Settled" where
  "onUnfollowBill st = Resolved (st\<lparr>billsFollowing := []\<rparr>)"

definition onUnfollowUser ::
  "('b, 'u) FollowingTabState \<Rightarrow> ('b, 'u) FollowingTabState Settled" where
  "onUnfollowUser st = Resolved (st\<lparr>usersFollowing := []\<rparr>)"

text \<open>
  The button \<^verbatim>\<open>BillsCard\<close> builds for an item of the following tab:
  \<^verbatim>\<open>confirmUnfollow={true}\<close> and the item's props, which carry the \<^verbatim>\<open>onUnfollow\<close> hook.
\<close>

definition billsCardButton ::
  "string option \<Rightarrow> BillItem \<Rightarrow> (('b, 'u) FollowingTabState World) BaseFollowButton" where
  "billsCardButton uid item =
     FollowBillButton uid item
       \<lparr>onFollow = None, onUnfollow = Some onUnfollowBill,
        confirmFollow = None, confirmUnfollow = Some True, hide = None\<rparr>"

text \<open>Everything that can happen to the tab, one event at a time.\<close>

datatype ('b, 'u) TabEvent =
  EveryRenderEffect
| FetchFollowedItems
| BillsResponse nat "'b list"
| UsersResponse nat "'u list"
| UnfollowBill
| UnfollowUser

fun tabStep ::
  "string option \<Rightarrow> ('b, 'u) FollowingTabState \<Rightarrow> ('b, 'u) TabEvent \<Rightarrow> ('b, 'u) FollowingTabState" where
  "tabStep uid st EveryRenderEffect = everyRenderEffect uid st"
| "tabStep uid st FetchFollowedItems = fetchFollowedItems uid st"
| "tabStep uid st (BillsResponse i billList) = billsFollowingResume i billList st"
| "tabStep uid st (UsersResponse i usersList) = orgsFollowingResume i usersList st"
| "tabStep uid st UnfollowBill = settledState (onUnfollowBill st)"
| "tabStep uid st UnfollowUser = settledState (onUnfollowUser st)"

section \<open>Scenarios\<close>

text \<open>
  The inputs of the scenarios: an empty store with an empty status map, a caller that
  passes no props, the bill \<^verbatim>\<open>{court: 193, billId: "H100"}\<close> and the document a follow of it
  writes, and the worlds after user \<^verbatim>\<open>u1\<close> followed and then unfollowed that bill.
\<close>

definition emptyWorld :: "unit World" where
  "emptyWorld = \<lparr>firestore = [], storeCalls = [], followStatus = (\<lambda>topic. None), outer = ()\<rparr>"

definition noProps :: "'s BaseFollowButtonProps" where
  "noProps = \<lparr>onFollow = None, onUnfollow = None, confirmFollow = None,
     confirmUnfollow = None, hide = None\<rparr>"

definition billH100 :: BillItem where
  "billH100 = \<lparr>court = 193, billId = ''H100''\<rparr>"

definition docH100 :: "string option \<Rightarrow> SubscriptionDoc" where
  "docH100 uid = \<lparr>docUid = uid, docTopicName = Some ''bill-193-H100'', docType = ''bill'',
     docBillLookup = Some \<lparr>court = 193, billId = ''H100''\<rparr>, docUserLookup = None\<rparr>"

definition followedWorld :: "unit World" where
  "followedWorld =
     \<lparr>firestore = [((''/users/u1/activeTopicSubscriptions/'', ''bill-193-H100''), docH100 (Some ''u1''))],
      storeCalls = [SetDoc ''/users/u1/activeTopicSubscriptions/'' ''bill-193-H100'' (docH100 (Some ''u1''))],
      followStatus = [''bill-193-H100'' \<mapsto> True], outer = ()\<rparr>"

definition unfollowedWorld :: "unit World" where
  "unfollowedWorld =
     \<lparr>firestore = [],
      storeCalls = [SetDoc ''/users/u1/activeTopicSubscriptions/'' ''bill-193-H100'' (docH100 (Some ''u1'')),
        DeleteDoc ''/users/u1/activeTopicSubscriptions/'' ''bill-193-H100''],
      followStatus = [''bill-193-H100'' \<mapsto> False], outer = ()\<rparr>"

text \<open>The world of a fresh page of \<^verbatim>\<open>u1\<close>, who followed the bill in an earlier session.\<close>

definition reloadedWorld :: "unit World" where
  "reloadedWorld =
     \<lparr>firestore = [((''/users/u1/activeTopicSubscriptions/'', ''bill-193-H100''), docH100 (Some ''u1''))],
      storeCalls = [], followStatus = (\<lambda>topic. None), outer = ()\<rparr>"

text \<open>The following tab of \<^verbatim>\<open>u1\<close> showing that bill, its status resolved to following.\<close>

definition tabWorld :: "(BillItem, UserItem) FollowingTabState World" where
  "tabWorld =
     \<lparr>firestore = [((''/users/u1/activeTopicSubscriptions/'', ''bill-193-H100''), docH100 (Some ''u1''))],
      storeCalls = [],
      followStatus = [''bill-193-H100'' \<mapsto> True],
      outer = \<lparr>billsFollowing = [billH100], usersFollowing = [], billQueries = [], userQueries = []\<rparr>\<rparr>"

text \<open>A second bill, and the store after \<^verbatim>\<open>u1\<close> followed it as well.\<close>

definition billH200 :: BillItem where
  "billH200 = \<lparr>court = 193, billId = ''H200''\<rparr>"

definition laterStore :: Firestore where
  "laterStore =
     firestore (followTopic (Some ''u1'') ''bill-193-H200'' ''bill'' (BillLookupData billH200) followedWorld)"

text \<open>
  Documents of the two snapshots of the followers tab: one whose \<^verbatim>\<open>userLookup\<close> is
  \<^verbatim>\<open>{profileId: p}\<close>, and one of the session's own whose \<^verbatim>\<open>userLookup\<close> is \<^verbatim>\<open>{uid: target}\<close>.
\<close>

definition followerDoc :: "string \<Rightarrow> SubscriptionDoc" where
  "followerDoc p =
     \<lparr>docUid = Some ''u1'', docTopicName = Some (''testimony-'' @ p), docType = ''testimony'',
      docBillLookup = None, docUserLookup = Some \<lparr>lookupProfileId = Some p, lookupUid = None\<rparr>\<rparr>"

definition myFollowDoc :: "string \<Rightarrow> SubscriptionDoc" where
  "myFollowDoc target =
     \<lparr>docUid = Some ''u1'', docTopicName = None, docType = ''testimony'',
      docBillLookup = None, docUserLookup = Some \<lparr>lookupProfileId = None, lookupUid = Some target\<rparr>\<rparr>"

text \<open>
  The following tab of \<^verbatim>\<open>u1\<close> after mount, once the first of its two bills calls has been
  answered with the one bill followed: the second bills call and the users call are still
  in flight, each with the empty list it captured.
\<close>

definition populatedTab :: "(BillItem option, UserLookup option) FollowingTabState" where
  "populatedTab =
     \<lparr>billsFollowing = [Some billH100], usersFollowing = [],
      billQueries = [None, Some []], userQueries = [Some []]\<rparr>"

section \<open>Properties of the store and of the toggle\<close>

lemmas button_defs = toggleFollow_def FollowBillButton_def FollowUserButton_def Let_def
  isFollowing_def awaitHook_def awaitOuterHook_def followTopic_def unfollowTopic_def setDoc_def
  deleteDoc_def setFollowStatus_def setSubscriptionRef_def templateString_def topicDoc_def
  numberToString_def truthyBool_def truthyString_def wantsConfirm_def

lemmas scenario_defs = emptyWorld_def noProps_def billH100_def docH100_def followedWorld_def
  unfollowedWorld_def

lemma update_fresh: "k \<notin> fst ` set al \<Longrightarrow> AList.update k v al = al @ [(k, v)]"
  by (induction al) auto

lemma delete_absent: "k \<notin> fst ` set (AList.delete k al)"
  by (induction al) auto

lemma BillItem_eta: "\<lparr>court = court item, billId = billId item\<rparr> = item"
  by (cases item) simp

lemma toggleFollow_bill:
  "toggleFollow (FollowBillButton uid item rest) w =
     (let topic = ''bill-'' @ numberToString (court item) @ ''-'' @ billId item in
      if truthyBool (followStatus w topic) then
        (case awaitOuterHook (onUnfollow rest) (unfollowTopic uid topic w) of
           Rejected w' \<Rightarrow> Rejected w'
         | Resolved w' \<Rightarrow> Resolved (setFollowStatus (\<lambda>prev. prev(topic \<mapsto> False)) w'))
      else
        (case awaitOuterHook (onFollow rest) (followTopic uid topic ''bill'' (BillLookupData item) w) of
           Rejected w' \<Rightarrow> Rejected w'
         | Resolved w' \<Rightarrow> Resolved (setFollowStatus (\<lambda>prev. prev(topic \<mapsto> True)) w')))"
  by (simp add: toggleFollow_def FollowBillButton_def Let_def isFollowing_def awaitHook_def BillItem_eta cong: Settled.case_cong)

lemma FollowBillButton_fields:
  "topicName (FollowBillButton uid item rest) = ''bill-'' @ numberToString (court item) @ ''-'' @ billId item"
  "confirmFollow (FollowBillButton uid item rest) = confirmFollow rest"
  "confirmUnfollow (FollowBillButton uid item rest) = confirmUnfollow rest"
  "hide (FollowBillButton uid item rest) = hide rest"
  by (simp_all add: FollowBillButton_def Let_def)

lemma FollowUserButton_fields:
  "topicName (FollowUserButton uid item rest) = ''testimony-'' @ profileId item"
  "confirmFollow (FollowUserButton uid item rest) = confirmFollow rest"
  "confirmUnfollow (FollowUserButton uid item rest) = confirmUnfollow rest"
  "hide (FollowUserButton uid item rest) = hide rest"
  by (simp_all add: FollowUserButton_def Let_def)

lemma toggle_effect:
  assumes tg: "toggleFollow b w = Resolved w1"
    and hf: "onFollow b = Some (\<lambda>w. awaitOuterHook hf (followTopic uid (topicName b) kind tdata w))"
    and hu: "onUnfollow b = Some (\<lambda>w. awaitOuterHook hu (unfollowTopic uid (topicName b) w))"
  shows "if truthyBool (followStatus w (topicName b))
         then firestore w1 = deleteDoc (setSubscriptionRef uid) (topicName b) (firestore w)
            \<and> storeCalls w1 = storeCalls w @ [DeleteDoc (setSubscriptionRef uid) (topicName b)]
            \<and> followStatus w1 = (followStatus w)(topicName b \<mapsto> False)
         else firestore w1 = setDoc (setSubscriptionRef uid) (topicName b)
                (topicDoc uid (topicName b) kind tdata) (firestore w)
            \<and> storeCalls w1 = storeCalls w @ [SetDoc (setSubscriptionRef uid) (topicName b)
                (topicDoc uid (topicName b) kind tdata)]
            \<and> followStatus w1 = (followStatus w)(topicName b \<mapsto> True)"
  using tg
  by (auto simp: toggleFollow_def isFollowing_def awaitHook_def hf hu awaitOuterHook_def
      setFollowStatus_def followTopic_def unfollowTopic_def Let_def split: Settled.splits if_splits)

lemma bill_hooks:
  "onFollow (FollowBillButton uid item rest) = Some (\<lambda>w. awaitOuterHook (onFollow rest)
     (followTopic uid (topicName (FollowBillButton uid item rest)) ''bill'' (BillLookupData item) w))"
  "onUnfollow (FollowBillButton uid item rest) = Some (\<lambda>w. awaitOuterHook (onUnfollow rest)
     (unfollowTopic uid (topicName (FollowBillButton uid item rest)) w))"
  by (simp_all add: FollowBillButton_def Let_def BillItem_eta)

lemma user_hooks:
  "onFollow (FollowUserButton uid item rest) = Some (\<lambda>w. awaitOuterHook (onFollow rest)
     (followTopic uid (topicName (FollowUserButton uid item rest)) ''testimony'' (UserLookupData (profileId item)) w))"
  "onUnfollow (FollowUserButton uid item rest) = Some (\<lambda>w. awaitOuterHook (onUnfollow rest)
     (unfollowTopic uid (topicName (FollowUserButton uid item rest)) w))"
  by (simp_all add: FollowUserButton_def Let_def)

lemma builtin_toggle_effect:
  assumes b: "b = FollowBillButton uid item rest \<or> b = FollowUserButton uid uitem rest"
    and tg: "toggleFollow b w = Resolved w1"
  shows "\<exists>kind tdata. if truthyBool (followStatus w (topicName b))
         then firestore w1 = deleteDoc (setSubscriptionRef uid) (topicName b) (firestore w)
            \<and> storeCalls w1 = storeCalls w @ [DeleteDoc (setSubscriptionRef uid) (topicName b)]
            \<and> followStatus w1 = (followStatus w)(topicName b \<mapsto> False)
         else firestore w1 = setDoc (setSubscriptionRef uid) (topicName b)
                (topicDoc uid (topicName b) kind tdata) (firestore w)
            \<and> storeCalls w1 = storeCalls w @ [SetDoc (setSubscriptionRef uid) (topicName b)
                (topicDoc uid (topicName b) kind tdata)]
            \<and> followStatus w1 = (followStatus w)(topicName b \<mapsto> True)"
proof -
  from b show ?thesis
  proof
    assume "b = FollowBillButton uid item rest"
    with toggle_effect [OF tg] bill_hooks [of uid item rest] show ?thesis by blast
  next
    assume "b = FollowUserButton uid uitem rest"
    with toggle_effect [OF tg] user_hooks [of uid uitem rest] show ?thesis by blast
  qed
qed

lemma follow_H100_evaluated:
  "toggleFollow (FollowBillButton (Some ''u1'') billH100 noProps) emptyWorld = Resolved followedWorld"
  by (simp add: button_defs scenario_defs)

lemma unfollow_H100_evaluated:
  "toggleFollow (FollowBillButton (Some ''u1'') billH100 noProps) followedWorld = Resolved unfollowedWorld"
  by (simp add: button_defs scenario_defs)

lemma topicName_H100:
  "topicName (FollowBillButton uid billH100 rest) = ''bill-193-H100''"
  by (simp add: FollowBillButton_fields billH100_def numberToString_def)

lemma toggleFollow_user:
  "toggleFollow (FollowUserButton uid item rest) w =
     (let topic = ''testimony-'' @ profileId item in
      if truthyBool (followStatus w topic) then
        (case awaitOuterHook (onUnfollow rest) (unfollowTopic uid topic w) of
           Rejected w' \<Rightarrow> Rejected w'
         | Resolved w' \<Rightarrow> Resolved (setFollowStatus (\<lambda>prev. prev(topic \<mapsto> False)) w'))
      else
        (case awaitOuterHook (onFollow rest) (followTopic uid topic ''testimony'' (UserLookupData (profileId item)) w) of
           Rejected w' \<Rightarrow> Rejected w'
         | Resolved w' \<Rightarrow> Resolved (setFollowStatus (\<lambda>prev. prev(topic \<mapsto> True)) w')))"
  by (simp add: toggleFollow_def FollowUserButton_def Let_def isFollowing_def awaitHook_def cong: Settled.case_cong)

lemma foldl_last_topicName:
  "foldl (\<lambda>result d. docTopicName d) r ds = (if ds = [] then r else docTopicName (last ds))"
  by (induction ds arbitrary: r) auto

lemma update_member: "(k, v) \<in> set (AList.update k v al)"
  by (induction al) auto

lemma getDocs_topicName:
  "d \<in> set (getDocs coll (\<lambda>d. docTopicName d = Some topic) fs) \<Longrightarrow> docTopicName d = Some topic"
  by (auto simp: getDocs_def)

lemma TopicQuery_after_setDoc:
  assumes "docTopicName d = Some topic"
  shows "TopicQuery uid topic (setDoc (setSubscriptionRef uid) topic d fs) = Some topic"
proof -
  let ?ds = "getDocs (setSubscriptionRef uid) (\<lambda>d. docTopicName d = Some topic)
     (setDoc (setSubscriptionRef uid) topic d fs)"
  have "d \<in> set ?ds"
    using assms update_member [of "(setSubscriptionRef uid, topic)" d fs]
    by (force simp: getDocs_def setDoc_def)
  then have ne: "?ds \<noteq> []" by auto
  then have "last ?ds \<in> set ?ds" by simp
  then have "docTopicName (last ?ds) = Some topic" by (rule getDocs_topicName)
  with ne show ?thesis by (simp add: TopicQuery_def foldl_last_topicName)
qed

lemma TopicQuery_after_deleteDoc:
  assumes "idIsTopicName fs"
  shows "TopicQuery uid topic (deleteDoc (setSubscriptionRef uid) topic fs) = Some []"
proof -
  have "getDocs (setSubscriptionRef uid) (\<lambda>d. docTopicName d = Some topic)
     (deleteDoc (setSubscriptionRef uid) topic fs) = []"
    using assms
    by (induction fs) (auto simp: getDocs_def deleteDoc_def idIsTopicName_def)
  then show ?thesis by (simp add: TopicQuery_def)
qed

lemma idIsTopicName_update:
  "idIsTopicName al \<Longrightarrow> docTopicName d = Some (snd k) \<Longrightarrow> idIsTopicName (AList.update k d al)"
  unfolding idIsTopicName_def by (induction al) auto

lemma idIsTopicName_followTopic:
  "idIsTopicName (firestore w) \<Longrightarrow> idIsTopicName (firestore (followTopic uid topic kind tdata w))"
  by (simp add: followTopic_def Let_def setDoc_def topicDoc_def idIsTopicName_update)

lemma idIsTopicName_unfollowTopic:
  "idIsTopicName (firestore w) \<Longrightarrow> idIsTopicName (firestore (unfollowTopic uid topic w))"
  by (simp add: idIsTopicName_def unfollowTopic_def Let_def deleteDoc_def AList.delete_eq list_all_iff)

lemma builtin_topic_nonempty:
  "b = FollowBillButton uid item rest \<or> b = FollowUserButton uid uitem rest \<Longrightarrow> topicName b \<noteq> []"
  by (auto simp: FollowBillButton_fields FollowUserButton_fields)

lemma onTopicQueryResult_same:
  "followStatus w topic = Some (truthyString r) \<Longrightarrow> onTopicQueryResult topic r w = w"
  by (simp add: onTopicQueryResult_def setFollowStatus_def fun_upd_idem)

section \<open>Follow, then unfollow\<close>

text \<open>
  Claim C2. For the bill button and the user button alike, and whatever the session: when
  the topic is not shown as followed, a toggle that resolves (the follow) followed by a
  second toggle that resolves (the unfollow) leaves no document under the follower's
  collection and the topic's name, and the status map holds \<open>False\<close> for the topic. The two
  writes issued are the \<^verbatim>\<open>setDoc\<close> and then the \<^verbatim>\<open>deleteDoc\<close> of that document.
\<close>

theorem follow_then_unfollow_leaves_no_record:
  assumes b: "b = FollowBillButton uid item rest \<or> b = FollowUserButton uid uitem rest"
    and nf: "\<not> truthyBool (isFollowing b w)"
    and t1: "toggleFollow b w = Resolved w1"
    and t2: "toggleFollow b w1 = Resolved w2"
  shows "(setSubscriptionRef uid, topicName b) \<notin> fst ` set (firestore w2)
     \<and> followStatus w2 (topicName b) = Some False
     \<and> (\<exists>d. storeCalls w2 = storeCalls w @
          [SetDoc (setSubscriptionRef uid) (topicName b) d, DeleteDoc (setSubscriptionRef uid) (topicName b)])"
proof -
  from builtin_toggle_effect [OF b t1] nf obtain kind tdata where
    w1: "storeCalls w1 = storeCalls w @ [SetDoc (setSubscriptionRef uid) (topicName b)
                (topicDoc uid (topicName b) kind tdata)]"
        "followStatus w1 = (followStatus w)(topicName b \<mapsto> True)"
    by (auto simp: isFollowing_def)
  then have f1: "truthyBool (followStatus w1 (topicName b))"
    by (simp add: truthyBool_def)
  from builtin_toggle_effect [OF b t2] f1 have
    w2: "firestore w2 = deleteDoc (setSubscriptionRef uid) (topicName b) (firestore w1)"
        "storeCalls w2 = storeCalls w1 @ [DeleteDoc (setSubscriptionRef uid) (topicName b)]"
        "followStatus w2 = (followStatus w1)(topicName b \<mapsto> False)"
    by auto
  from w2(1) have A: "(setSubscriptionRef uid, topicName b) \<notin> fst ` set (firestore w2)"
    by (simp add: deleteDoc_def delete_absent)
  from w2(3) have B: "followStatus w2 (topicName b) = Some False"
    by simp
  from w1(1) w2(2) have C: "\<exists>d. storeCalls w2 = storeCalls w @
          [SetDoc (setSubscriptionRef uid) (topicName b) d, DeleteDoc (setSubscriptionRef uid) (topicName b)]"
    by simp
  from A B C show ?thesis by blast
qed

theorem follow_then_unfollow_leaves_no_record_witness:
  "\<not> truthyBool (isFollowing (FollowBillButton (Some ''u1'') billH100 noProps) emptyWorld)
   \<and> toggleFollow (FollowBillButton (Some ''u1'') billH100 noProps) emptyWorld = Resolved followedWorld
   \<and> toggleFollow (FollowBillButton (Some ''u1'') billH100 noProps) followedWorld = Resolved unfollowedWorld
   \<and> (''/users/u1/activeTopicSubscriptions/'', ''bill-193-H100'') \<notin> fst ` set (firestore unfollowedWorld)
   \<and> followStatus unfollowedWorld ''bill-193-H100'' = Some False"
proof -
  let ?b = "FollowBillButton (Some ''u1'') billH100 (noProps :: unit BaseFollowButtonProps)"
  have nf: "\<not> truthyBool (isFollowing ?b emptyWorld)"
    by (simp add: isFollowing_def truthyBool_def emptyWorld_def)
  have b: "?b = FollowBillButton (Some ''u1'') billH100 noProps
      \<or> ?b = FollowUserButton (Some ''u1'') \<lparr>profileId = ''u2'', fullName = None\<rparr> noProps"
    by simp
  from follow_then_unfollow_leaves_no_record
    [OF b nf follow_H100_evaluated unfollow_H100_evaluated]
  have "(setSubscriptionRef (Some ''u1''), topicName ?b) \<notin> fst ` set (firestore unfollowedWorld)
     \<and> followStatus unfollowedWorld (topicName ?b) = Some False"
    by blast
  then have "(''/users/u1/activeTopicSubscriptions/'', ''bill-193-H100'') \<notin> fst ` set (firestore unfollowedWorld)
     \<and> followStatus unfollowedWorld ''bill-193-H100'' = Some False"
    by (simp add: topicName_H100 setSubscriptionRef_def templateString_def)
  with nf follow_H100_evaluated unfollow_H100_evaluated show ?thesis by blast
qed

section \<open>Confirmation\<close>

text \<open>
  Claim C3. When confirmation is wanted for the current direction (\<^verbatim>\<open>confirmUnfollow\<close> while
  following, \<^verbatim>\<open>confirmFollow\<close> otherwise), a click only opens the dialog and a denial only
  closes it: the world (the store, the writes issued, the status map and the caller's
  state) is the same after the click, and the same after the denial.
\<close>

theorem denied_confirmation_changes_nothing:
  assumes "truthyBool (wantsConfirm b w)"
  shows "onClick b (w, showModal) = Resolved (w, True) \<and> onDeny b (w, True) = Resolved (w, False)"
  using assms by (simp add: onClick_def onDeny_def)

theorem denied_confirmation_changes_nothing_witness:
  "truthyBool (wantsConfirm (billsCardButton (Some ''u1'') billH100) tabWorld)
   \<and> onClick (billsCardButton (Some ''u1'') billH100) (tabWorld, False) = Resolved (tabWorld, True)
   \<and> onDeny (billsCardButton (Some ''u1'') billH100) (tabWorld, True) = Resolved (tabWorld, False)"
proof -
  have h: "truthyBool (wantsConfirm (billsCardButton (Some ''u1'') billH100) tabWorld)"
    by (simp add: wantsConfirm_def isFollowing_def billsCardButton_def FollowBillButton_fields(2-4)
        topicName_H100 tabWorld_def truthyBool_def)
  from denied_confirmation_changes_nothing [OF h, of False] h show ?thesis by simp
qed

section \<open>Following a bill\<close>

text \<open>
  Claim C6. With a session, a follow of the bill with court 193 and billId H100 that goes
  through (the topic is not shown as followed, the caller's hook, if any, resolves) from a
  store without that document: the topic is \<^verbatim>\<open>bill-193-H100\<close>; the store is the old one with
  exactly one document added, under the session's collection and the id \<^verbatim>\<open>bill-193-H100\<close>;
  the document's \<^verbatim>\<open>billLookup\<close> is \<^verbatim>\<open>{billId: "H100", court: 193}\<close>; and the status map is the
  old one with \<^verbatim>\<open>bill-193-H100\<close> set to true.
\<close>

theorem follow_bill_H100:
  assumes auth: "truthyString uid"
    and b: "b = FollowBillButton uid \<lparr>court = 193, billId = ''H100''\<rparr> rest"
    and nf: "\<not> truthyBool (isFollowing b w)"
    and fresh: "(setSubscriptionRef uid, ''bill-193-H100'') \<notin> fst ` set (firestore w)"
    and hook: "awaitHook (onFollow rest) (outer w) = Resolved st"
  shows "topicName b = ''bill-193-H100'' \<and>
    (\<exists>w1 d. toggleFollow b w = Resolved w1 \<and>
       firestore w1 = firestore w @ [((setSubscriptionRef uid, ''bill-193-H100''), d)] \<and>
       docBillLookup d = Some \<lparr>court = 193, billId = ''H100''\<rparr> \<and>
       docUid d = uid \<and> docTopicName d = Some ''bill-193-H100'' \<and> docType d = ''bill'' \<and>
       followStatus w1 = (followStatus w)(''bill-193-H100'' \<mapsto> True))"
proof -
  have T: "topicName b = ''bill-193-H100''"
    by (simp add: b FollowBillButton_fields numberToString_def)
  let ?d = "topicDoc uid ''bill-193-H100'' ''bill'' (BillLookupData \<lparr>court = 193, billId = ''H100''\<rparr>)"
  let ?w1 = "(followTopic uid ''bill-193-H100'' ''bill'' (BillLookupData \<lparr>court = 193, billId = ''H100''\<rparr>) w)
     \<lparr>outer := st, followStatus := (followStatus w)(''bill-193-H100'' \<mapsto> True)\<rparr>"
  from nf T have nf': "\<not> truthyBool (followStatus w ''bill-193-H100'')"
    by (simp add: isFollowing_def)
  have tg: "toggleFollow b w = Resolved ?w1"
    using nf' hook
    by (simp add: b toggleFollow_bill numberToString_def awaitOuterHook_def followTopic_def
        setFollowStatus_def Let_def)
  have fs: "firestore ?w1 = firestore w @ [((setSubscriptionRef uid, ''bill-193-H100''), ?d)]"
    using fresh by (simp add: followTopic_def Let_def setDoc_def update_fresh)
  have d: "docBillLookup ?d = Some \<lparr>court = 193, billId = ''H100''\<rparr> \<and> docUid ?d = uid
      \<and> docTopicName ?d = Some ''bill-193-H100'' \<and> docType ?d = ''bill''"
    by (simp add: topicDoc_def)
  have st: "followStatus ?w1 = (followStatus w)(''bill-193-H100'' \<mapsto> True)"
    by simp
  from T tg fs d st show ?thesis by blast
qed

theorem follow_bill_H100_witness:
  "truthyString (Some ''u1'')
   \<and> \<not> truthyBool (isFollowing (FollowBillButton (Some ''u1'') \<lparr>court = 193, billId = ''H100''\<rparr> noProps) emptyWorld)
   \<and> (setSubscriptionRef (Some ''u1''), ''bill-193-H100'') \<notin> fst ` set (firestore emptyWorld)
   \<and> awaitHook (onFollow noProps) (outer emptyWorld) = Resolved ()
   \<and> (\<exists>w1 d. toggleFollow (FollowBillButton (Some ''u1'') \<lparr>court = 193, billId = ''H100''\<rparr> noProps) emptyWorld
          = Resolved w1 \<and>
        firestore w1 = [((''/users/u1/activeTopicSubscriptions/'', ''bill-193-H100''), d)] \<and>
        docBillLookup d = Some \<lparr>court = 193, billId = ''H100''\<rparr> \<and>
        followStatus w1 ''bill-193-H100'' = Some True)"
proof -
  let ?b = "FollowBillButton (Some ''u1'') \<lparr>court = 193, billId = ''H100''\<rparr> (noProps :: unit BaseFollowButtonProps)"
  have auth: "truthyString (Some ''u1'')"
    by (simp add: truthyString_def)
  have nf: "\<not> truthyBool (isFollowing ?b emptyWorld)"
    by (simp add: isFollowing_def truthyBool_def emptyWorld_def)
  have fresh: "(setSubscriptionRef (Some ''u1''), ''bill-193-H100'') \<notin> fst ` set (firestore emptyWorld)"
    by (simp add: emptyWorld_def)
  have hook: "awaitHook (onFollow noProps) (outer emptyWorld) = Resolved ()"
    by (simp add: awaitHook_def noProps_def)
  from follow_bill_H100 [OF auth refl nf fresh hook]
  obtain w1 d where
    "toggleFollow ?b emptyWorld = Resolved w1"
    "firestore w1 = firestore emptyWorld @ [((setSubscriptionRef (Some ''u1''), ''bill-193-H100''), d)]"
    "docBillLookup d = Some \<lparr>court = 193, billId = ''H100''\<rparr>"
    "followStatus w1 = (followStatus emptyWorld)(''bill-193-H100'' \<mapsto> True)"
    by blast
  then have "\<exists>w1 d. toggleFollow ?b emptyWorld = Resolved w1 \<and>
        firestore w1 = [((''/users/u1/activeTopicSubscriptions/'', ''bill-193-H100''), d)] \<and>
        docBillLookup d = Some \<lparr>court = 193, billId = ''H100''\<rparr> \<and>
        followStatus w1 ''bill-193-H100'' = Some True"
    by (simp add: emptyWorld_def setSubscriptionRef_def templateString_def)
  with auth nf fresh hook show ?thesis by blast
qed

section \<open>Status queries and toggles\<close>

text \<open>
  Claim C1, as stated, fails. User \<^verbatim>\<open>u1\<close> mounts the button of bill 193/H100 on an empty
  store: the effect issues the status query, and the store answers it with no document
  (the result is the empty string). Before the response arrives the user follows the bill:
  the toggle resolves and the status map holds \<open>True\<close> for the topic. The response then
  arrives and its callback writes \<open>False\<close> over the toggle's status.
\<close>

theorem stale_query_overwrites_toggle:
  "mountEffect (Some ''u1'') ''bill-193-H100'' = Some (Some ''u1'', ''bill-193-H100'')
   \<and> TopicQuery (Some ''u1'') ''bill-193-H100'' (firestore emptyWorld) = Some []
   \<and> toggleFollow (FollowBillButton (Some ''u1'') billH100 noProps) emptyWorld = Resolved followedWorld
   \<and> followStatus followedWorld ''bill-193-H100'' = Some True
   \<and> followStatus (onTopicQueryResult ''bill-193-H100'' (Some []) followedWorld) ''bill-193-H100''
       = Some False"
proof -
  have "mountEffect (Some ''u1'') ''bill-193-H100'' = Some (Some ''u1'', ''bill-193-H100'')"
    by (simp add: mountEffect_def truthyString_def)
  moreover have "TopicQuery (Some ''u1'') ''bill-193-H100'' (firestore emptyWorld) = Some []"
    by (simp add: TopicQuery_def getDocs_def emptyWorld_def)
  moreover have "followStatus followedWorld ''bill-193-H100'' = Some True"
    by (simp add: followedWorld_def)
  moreover have "followStatus (onTopicQueryResult ''bill-193-H100'' (Some []) followedWorld)
      ''bill-193-H100'' = Some False"
    by (simp add: onTopicQueryResult_def setFollowStatus_def truthyString_def)
  ultimately show ?thesis using follow_H100_evaluated by blast
qed

text \<open>
  Claim C1, amended. The callback of a status query has no guard: whatever the response
  \<open>r\<close> and whenever its query was issued, once it is applied the entry of the topic is
  \<^verbatim>\<open>Boolean(r)\<close>. So what a toggle wrote survives a response that arrives after it exactly
  when \<^verbatim>\<open>Boolean(r)\<close> is the toggle's own status, and is overwritten otherwise. For the bill
  button and the user button on a regular store, a response whose query read the store
  after the toggle's write is always of the first kind: it leaves the world as it is.
\<close>

theorem query_after_toggle_agrees:
  assumes b: "b = FollowBillButton uid item rest \<or> b = FollowUserButton uid uitem rest"
    and wf: "idIsTopicName (firestore w)"
    and tg: "toggleFollow b w = Resolved w1"
  shows "followStatus (onTopicQueryResult (topicName b) r w1) (topicName b) = Some (truthyString r)
     \<and> (followStatus (onTopicQueryResult (topicName b) r w1) (topicName b)
            = followStatus w1 (topicName b)
          \<longleftrightarrow> followStatus w1 (topicName b) = Some (truthyString r))
     \<and> onTopicQueryResult (topicName b) (TopicQuery uid (topicName b) (firestore w1)) w1 = w1"
proof -
  have A: "followStatus (onTopicQueryResult (topicName b) r w1) (topicName b) = Some (truthyString r)"
    by (simp add: onTopicQueryResult_def setFollowStatus_def)
  then have A': "followStatus (onTopicQueryResult (topicName b) r w1) (topicName b)
            = followStatus w1 (topicName b)
          \<longleftrightarrow> followStatus w1 (topicName b) = Some (truthyString r)"
    by auto
  from builtin_toggle_effect [OF b tg] obtain kind tdata where
    eff: "if truthyBool (followStatus w (topicName b))
         then firestore w1 = deleteDoc (setSubscriptionRef uid) (topicName b) (firestore w)
            \<and> followStatus w1 = (followStatus w)(topicName b \<mapsto> False)
         else firestore w1 = setDoc (setSubscriptionRef uid) (topicName b)
                (topicDoc uid (topicName b) kind tdata) (firestore w)
            \<and> followStatus w1 = (followStatus w)(topicName b \<mapsto> True)"
    by (auto split: if_splits)
  have "followStatus w1 (topicName b) = Some (truthyString (TopicQuery uid (topicName b) (firestore w1)))"
  proof (cases "truthyBool (followStatus w (topicName b))")
    case True
    with eff wf show ?thesis
      by (simp add: TopicQuery_after_deleteDoc truthyString_def)
  next
    case False
    have "docTopicName (topicDoc uid (topicName b) kind tdata) = Some (topicName b)"
      by (simp add: topicDoc_def)
    with False eff builtin_topic_nonempty [OF b] show ?thesis
      by (simp add: TopicQuery_after_setDoc truthyString_def)
  qed
  then have B: "onTopicQueryResult (topicName b) (TopicQuery uid (topicName b) (firestore w1)) w1 = w1"
    by (rule onTopicQueryResult_same)
  from A A' B show ?thesis by blast
qed

theorem query_after_toggle_agrees_witness:
  "idIsTopicName (firestore emptyWorld)
   \<and> toggleFollow (FollowBillButton (Some ''u1'') billH100 noProps) emptyWorld = Resolved followedWorld
   \<and> followStatus (onTopicQueryResult ''bill-193-H100'' (Some []) followedWorld) ''bill-193-H100''
       = Some False
   \<and> onTopicQueryResult ''bill-193-H100''
        (TopicQuery (Some ''u1'') ''bill-193-H100'' (firestore followedWorld)) followedWorld
       = followedWorld"
proof -
  let ?b = "FollowBillButton (Some ''u1'') billH100 (noProps :: unit BaseFollowButtonProps)"
  have wf: "idIsTopicName (firestore emptyWorld)"
    by (simp add: idIsTopicName_def emptyWorld_def)
  have b: "?b = FollowBillButton (Some ''u1'') billH100 noProps
      \<or> ?b = FollowUserButton (Some ''u1'') \<lparr>profileId = ''u2'', fullName = None\<rparr> noProps"
    by simp
  from query_after_toggle_agrees [OF b wf follow_H100_evaluated, of "Some []"]
  have "followStatus (onTopicQueryResult ''bill-193-H100'' (Some []) followedWorld) ''bill-193-H100''
       = Some False
     \<and> onTopicQueryResult ''bill-193-H100''
        (TopicQuery (Some ''u1'') ''bill-193-H100'' (firestore followedWorld)) followedWorld
       = followedWorld"
    by (simp add: topicName_H100 truthyString_def)
  with wf follow_H100_evaluated show ?thesis by blast
qed

section \<open>Two buttons of one topic\<close>

text \<open>
  Claim C5. Two buttons of the same topic each read the store with their own status query.
  When the store is the same at the two reads, the two responses applied in either order
  give the same world, and in it both buttons read the same status: the truthiness of the
  query's result.
\<close>

theorem same_topic_buttons_converge:
  assumes "topicName b1 = topic" and "topicName b2 = topic"
    and "firestore w' = firestore w"
  shows "let r1 = TopicQuery uid topic (firestore w);
             r2 = TopicQuery uid topic (firestore w');
             wa = onTopicQueryResult topic r2 (onTopicQueryResult topic r1 w);
             wb = onTopicQueryResult topic r1 (onTopicQueryResult topic r2 w)
         in wa = wb \<and> isFollowing b1 wa = Some (truthyString r1)
            \<and> isFollowing b2 wa = isFollowing b1 wa \<and> isFollowing b1 wb = isFollowing b2 wb"
  using assms by (simp add: Let_def isFollowing_def onTopicQueryResult_def setFollowStatus_def)

theorem same_topic_buttons_converge_witness:
  "firestore reloadedWorld = firestore followedWorld
   \<and> followStatus reloadedWorld ''bill-193-H100'' = None
   \<and> isFollowing (FollowBillButton (Some ''u1'') billH100 noProps)
        (onTopicQueryResult ''bill-193-H100''
           (TopicQuery (Some ''u1'') ''bill-193-H100'' (firestore followedWorld))
           (onTopicQueryResult ''bill-193-H100''
              (TopicQuery (Some ''u1'') ''bill-193-H100'' (firestore reloadedWorld)) reloadedWorld))
       = Some True
   \<and> isFollowing (FollowBillButton (Some ''u1'') billH100 (noProps\<lparr>confirmUnfollow := Some True\<rparr>))
        (onTopicQueryResult ''bill-193-H100''
           (TopicQuery (Some ''u1'') ''bill-193-H100'' (firestore followedWorld))
           (onTopicQueryResult ''bill-193-H100''
              (TopicQuery (Some ''u1'') ''bill-193-H100'' (firestore reloadedWorld)) reloadedWorld))
       = Some True"
proof -
  let ?b1 = "FollowBillButton (Some ''u1'') billH100 (noProps :: unit BaseFollowButtonProps)"
  let ?b2 = "FollowBillButton (Some ''u1'') billH100
     ((noProps :: unit BaseFollowButtonProps)\<lparr>confirmUnfollow := Some True\<rparr>)"
  have t1: "topicName ?b1 = ''bill-193-H100''" and t2: "topicName ?b2 = ''bill-193-H100''"
    by (rule topicName_H100)+
  have st: "firestore followedWorld = firestore reloadedWorld"
    by (simp add: followedWorld_def reloadedWorld_def)
  have r: "truthyString (TopicQuery (Some ''u1'') ''bill-193-H100'' (firestore reloadedWorld))"
    by (simp add: TopicQuery_def getDocs_def reloadedWorld_def docH100_def setSubscriptionRef_def
        templateString_def truthyString_def)
  have n: "followStatus reloadedWorld ''bill-193-H100'' = None"
    by (simp add: reloadedWorld_def)
  from same_topic_buttons_converge [OF t1 t2 st, of "Some ''u1''"] r st n
  show ?thesis by (simp add: Let_def)
qed

section \<open>A toggle without a session\<close>

text \<open>
  Claim C4 asks that a toggle without a session issue no write. The toggle has no check
  of the session: with \<^verbatim>\<open>uid\<close> undefined the bill button still issues one write, a
  \<^verbatim>\<open>deleteDoc\<close> when the topic is shown as followed and a \<^verbatim>\<open>setDoc\<close> otherwise, against the
  collection \<^verbatim>\<open>/users/undefined/activeTopicSubscriptions/\<close>; and from the empty world the
  follow of bill 193/H100 resolves with that document written and the status set.
\<close>

theorem toggle_without_session_issues_write:
  "storeCalls (settledState (toggleFollow (FollowBillButton None item rest) w)) =
     storeCalls w @
       [if truthyBool (isFollowing (FollowBillButton None item rest) w)
        then DeleteDoc ''/users/undefined/activeTopicSubscriptions/''
               (topicName (FollowBillButton None item rest))
        else SetDoc ''/users/undefined/activeTopicSubscriptions/''
               (topicName (FollowBillButton None item rest))
               (topicDoc None (topicName (FollowBillButton None item rest)) ''bill'' (BillLookupData item))]
   \<and> toggleFollow (FollowBillButton None billH100 noProps) emptyWorld =
       Resolved \<lparr>firestore =
           [((''/users/undefined/activeTopicSubscriptions/'', ''bill-193-H100''), docH100 None)],
         storeCalls =
           [SetDoc ''/users/undefined/activeTopicSubscriptions/'' ''bill-193-H100'' (docH100 None)],
         followStatus = [''bill-193-H100'' \<mapsto> True], outer = ()\<rparr>"
proof -
  have A: "storeCalls (settledState (toggleFollow (FollowBillButton None item rest) w)) =
     storeCalls w @
       [if truthyBool (isFollowing (FollowBillButton None item rest) w)
        then DeleteDoc ''/users/undefined/activeTopicSubscriptions/''
               (topicName (FollowBillButton None item rest))
        else SetDoc ''/users/undefined/activeTopicSubscriptions/''
               (topicName (FollowBillButton None item rest))
               (topicDoc None (topicName (FollowBillButton None item rest)) ''bill'' (BillLookupData item))]"
    by (simp add: toggleFollow_bill FollowBillButton_fields isFollowing_def Let_def awaitOuterHook_def
        followTopic_def unfollowTopic_def setFollowStatus_def setSubscriptionRef_def templateString_def
        split: Settled.splits)
  have B: "toggleFollow (FollowBillButton None billH100 noProps) emptyWorld =
       Resolved \<lparr>firestore =
           [((''/users/undefined/activeTopicSubscriptions/'', ''bill-193-H100''), docH100 None)],
         storeCalls =
           [SetDoc ''/users/undefined/activeTopicSubscriptions/'' ''bill-193-H100'' (docH100 None)],
         followStatus = [''bill-193-H100'' \<mapsto> True], outer = ()\<rparr>"
    by (simp add: button_defs scenario_defs)
  from A B show ?thesis by blast
qed

section \<open>The button while the status is unknown\<close>

text \<open>
  Claim C7, as stated, fails. With no entry for the topic in the status map, the button of
  bill 193/H100 is rendered, and rendered exactly as it is for a topic known not to be
  followed: the label \<^verbatim>\<open>button.follow.follow\<close> and no check mark.
\<close>

theorem unknown_status_renders_as_not_following:
  "followStatus emptyWorld ''bill-193-H100'' = None
   \<and> followStatus unfollowedWorld ''bill-193-H100'' = Some False
   \<and> renderedButton (render (FollowBillButton (Some ''u1'') billH100 noProps) (emptyWorld, False))
       = Some (''button.follow.follow'', False)
   \<and> render (FollowBillButton (Some ''u1'') billH100 noProps) (emptyWorld, False)
       = render (FollowBillButton (Some ''u1'') billH100 noProps) (unfollowedWorld, False)"
  by (simp add: render_def isFollowing_def topicName_H100 FollowBillButton_fields(2-4) noProps_def
      truthyBool_def emptyWorld_def unfollowedWorld_def)

text \<open>
  Claim C7, amended. While the status of its topic is unknown a button never claims the
  following state: it renders what it renders once the status is known to be false, that is
  no button at all when \<^verbatim>\<open>hide\<close> is set and otherwise the label \<^verbatim>\<open>button.follow.follow\<close>
  without the check mark, and a dialog whose action is \<^verbatim>\<open>follow\<close>.
\<close>

theorem unknown_status_never_claims_following:
  assumes "isFollowing b w = None"
  shows "render b (w, showModal)
       = render b (setFollowStatus (\<lambda>prev. prev(topicName b \<mapsto> False)) w, showModal)
    \<and> renderedButton (render b (w, showModal)) =
        (if truthyBool (hide b) then None else Some (''button.follow.follow'', False))
    \<and> modalAction (render b (w, showModal)) = ''follow''"
  using assms by (simp add: render_def isFollowing_def setFollowStatus_def truthyBool_def)

theorem unknown_status_never_claims_following_witness:
  "isFollowing (FollowBillButton (Some ''u1'') billH100 noProps) emptyWorld = None
   \<and> renderedButton (render (FollowBillButton (Some ''u1'') billH100 noProps) (emptyWorld, False))
       = Some (''button.follow.follow'', False)
   \<and> modalAction (render (FollowBillButton (Some ''u1'') billH100 noProps) (emptyWorld, False))
       = ''follow''"
proof -
  let ?b = "FollowBillButton (Some ''u1'') billH100 (noProps :: unit BaseFollowButtonProps)"
  have h: "isFollowing ?b emptyWorld = None"
    by (simp add: isFollowing_def emptyWorld_def)
  have nh: "\<not> truthyBool (hide ?b)"
    by (simp add: FollowBillButton_fields noProps_def truthyBool_def)
  from unknown_status_never_claims_following [OF h, of False]
  have "renderedButton (render ?b (emptyWorld, False)) =
        (if truthyBool (hide ?b) then None else Some (''button.follow.follow'', False))
    \<and> modalAction (render ?b (emptyWorld, False)) = ''follow''"
    by blast
  with nh h show ?thesis by simp
qed

section \<open>A rejected followers call\<close>

lemma followersTabRun_rejections:
  "followersTabRun uid (map Inl errs) st =
     Resolved (st\<lparr>consoleErrors := consoleErrors st @
       (if truthyString uid then map (\<lambda>err. (''Error fetching followerIds'', err)) errs else [])\<rparr>)"
  by (induction errs arbitrary: st) (simp_all add: followersTabEffect_def fetchFollowers_def)

text \<open>
  Claim C8. A rejected \<^verbatim>\<open>getFollowers\<close> call is caught: \<^verbatim>\<open>fetchFollowers\<close> resolves, and
  all it does is log the error. So from the mounted tab, however many calls reject, the
  effect resolves every time, the tab renders no follower, and \<^verbatim>\<open>setFollowerCount\<close> has not
  been invoked.
\<close>

theorem rejected_followers_call_is_caught:
  "fetchFollowers (Inl err) st =
     Resolved (st\<lparr>consoleErrors := consoleErrors st @ [(''Error fetching followerIds'', err)]\<rparr>)
   \<and> (\<exists>st'. followersTabRun uid (map Inl errs) followersTabMount = Resolved st'
         \<and> followersTabItems st' = [] \<and> followerIds st' = [] \<and> followerCountCalls st' = [])"
  by (simp add: followersTabRun_rejections fetchFollowers_def followersTabItems_def followersTabMount_def)

section \<open>Followers and the session's own follows\<close>

text \<open>
  Claim C9. In the tab of a session, when the followers snapshot yields the lookups of
  \<^verbatim>\<open>u2\<close> and \<^verbatim>\<open>u3\<close> and the snapshot of the session's own follows yields the set \<^verbatim>\<open>{u3}\<close>,
  then in whichever order the two effects ran the tab renders two items: \<^verbatim>\<open>u2\<close> with
  \<^verbatim>\<open>alreadyFollowing\<close> false and \<^verbatim>\<open>u3\<close> with \<^verbatim>\<open>alreadyFollowing\<close> true. The two results
  meet only in the render.
\<close>

theorem followers_joined_with_own_follows:
  assumes U: "truthyString uid"
    and F: "map docUserLookup qsFollowers = [Some e2, Some e3]"
    and p2: "lookupProfileId e2 = Some ''u2''" and p3: "lookupProfileId e3 = Some ''u3''"
    and M: "followedIds qsMine {} = Some {Some ''u3''}"
  shows "storeFollowersTabRender
           (settledState (myFollowsQueryEffect uid qsMine (followersQueryEffect uid qsFollowers st)))
       = Some [\<lparr>itemKey = Some ''u2'', element = e2, alreadyFollowing = False\<rparr>,
               \<lparr>itemKey = Some ''u3'', element = e3, alreadyFollowing = True\<rparr>]
     \<and> storeFollowersTabRender
           (followersQueryEffect uid qsFollowers (settledState (myFollowsQueryEffect uid qsMine st)))
       = Some [\<lparr>itemKey = Some ''u2'', element = e2, alreadyFollowing = False\<rparr>,
               \<lparr>itemKey = Some ''u3'', element = e3, alreadyFollowing = True\<rparr>]"
  using assms
  by (simp add: storeFollowersTabRender_def myFollowsQueryEffect_def followersQueryEffect_def)

theorem followers_joined_with_own_follows_witness:
  "truthyString (Some ''u1'')
   \<and> map docUserLookup [followerDoc ''u2'', followerDoc ''u3''] =
      [Some \<lparr>lookupProfileId = Some ''u2'', lookupUid = None\<rparr>,
       Some \<lparr>lookupProfileId = Some ''u3'', lookupUid = None\<rparr>]
   \<and> followedIds [myFollowDoc ''u3''] {} = Some {Some ''u3''}
   \<and> storeFollowersTabRender (settledState
        (myFollowsQueryEffect (Some ''u1'') [myFollowDoc ''u3'']
           (followersQueryEffect (Some ''u1'') [followerDoc ''u2'', followerDoc ''u3'']
              storeFollowersTabMount)))
      = Some [\<lparr>itemKey = Some ''u2'', element = \<lparr>lookupProfileId = Some ''u2'', lookupUid = None\<rparr>,
                alreadyFollowing = False\<rparr>,
              \<lparr>itemKey = Some ''u3'', element = \<lparr>lookupProfileId = Some ''u3'', lookupUid = None\<rparr>,
                alreadyFollowing = True\<rparr>]"
proof -
  have U: "truthyString (Some ''u1'')"
    by (simp add: truthyString_def)
  have F: "map docUserLookup [followerDoc ''u2'', followerDoc ''u3''] =
      [Some \<lparr>lookupProfileId = Some ''u2'', lookupUid = None\<rparr>,
       Some \<lparr>lookupProfileId = Some ''u3'', lookupUid = None\<rparr>]"
    by (simp add: followerDoc_def)
  have M: "followedIds [myFollowDoc ''u3''] {} = Some {Some ''u3''}"
    by (simp add: myFollowDoc_def)
  from followers_joined_with_own_follows [OF U F _ _ M, of storeFollowersTabMount] U F M
  show ?thesis by simp
qed

section \<open>The lists of the following tab\<close>

lemma billListOf_followed: "billListOf (Some ''u1'') (firestore followedWorld) = [Some billH100]"
  by (simp add: billListOf_def getDocs_def followedWorld_def docH100_def billH100_def templateString_def)

lemma billListOf_later: "billListOf (Some ''u1'') laterStore = [Some billH100, Some billH200]"
  by (simp add: billListOf_def getDocs_def laterStore_def followTopic_def Let_def setDoc_def topicDoc_def
      setSubscriptionRef_def followedWorld_def docH100_def billH100_def templateString_def)

lemmas tab_defs = everyRenderEffect_def fetchFollowedItems_def billsFollowingQuery_def
  orgsFollowingQuery_def billsFollowingResume_def orgsFollowingResume_def onUnfollowBill_def
  onUnfollowUser_def Let_def

lemma populatedTab_reached:
  "foldl (tabStep (Some ''u1'')) followingTabMount
      [EveryRenderEffect, FetchFollowedItems,
       BillsResponse 0 (billListOf (Some ''u1'') (firestore followedWorld))] = populatedTab"
  by (simp add: billListOf_followed followingTabMount_def populatedTab_def tab_defs truthyString_def)

text \<open>What one event changes.\<close>

lemma list_change_cases:
  assumes "billsFollowing (tabStep uid st e) \<noteq> billsFollowing st
     \<or> usersFollowing (tabStep uid st e) \<noteq> usersFollowing st"
  shows "(e = UnfollowBill \<and> billsFollowing (tabStep uid st e) = [])
     \<or> (e = UnfollowUser \<and> usersFollowing (tabStep uid st e) = [])
     \<or> (\<exists>i billList. e = BillsResponse i billList \<and> i < length (billQueries st)
           \<and> billQueries st ! i = Some [] \<and> billList \<noteq> []
           \<and> billsFollowing (tabStep uid st e) = billList)
     \<or> (\<exists>i usersList. e = UsersResponse i usersList \<and> i < length (userQueries st)
           \<and> userQueries st ! i = Some [] \<and> usersList \<noteq> []
           \<and> usersFollowing (tabStep uid st e) = usersList)"
  using assms
  by (cases e) (auto simp: tab_defs split: if_splits option.splits)

lemma issue_records_current_list:
  "billQueries (tabStep uid st EveryRenderEffect) =
     (if truthyString uid then billQueries st @ [Some (billsFollowing st)] else billQueries st)"
  "billQueries (tabStep uid st FetchFollowedItems) =
     (if truthyString uid then billQueries st @ [Some (billsFollowing st)] else billQueries st)"
  "userQueries (tabStep uid st FetchFollowedItems) =
     (if truthyString uid then userQueries st @ [Some (usersFollowing st)] else userQueries st)"
  by (simp_all add: tab_defs)

text \<open>A recorded call keeps its number and its captured list until it is answered.\<close>

lemma billQueries_step:
  assumes "n < length (billQueries st)"
  shows "n < length (billQueries (tabStep uid st e))
     \<and> (billQueries (tabStep uid st e) ! n = billQueries st ! n
        \<or> billQueries (tabStep uid st e) ! n = None)"
  using assms
  by (cases e) (auto simp: tab_defs nth_append nth_list_update split: option.splits)

lemma userQueries_step:
  assumes "n < length (userQueries st)"
  shows "n < length (userQueries (tabStep uid st e))
     \<and> (userQueries (tabStep uid st e) ! n = userQueries st ! n
        \<or> userQueries (tabStep uid st e) ! n = None)"
  using assms
  by (cases e) (auto simp: tab_defs nth_append nth_list_update split: option.splits)

lemma billQueries_trace:
  assumes "n < length (billQueries st)"
  shows "n < length (billQueries (foldl (tabStep uid) st es))
     \<and> (billQueries (foldl (tabStep uid) st es) ! n = billQueries st ! n
        \<or> billQueries (foldl (tabStep uid) st es) ! n = None)"
  using assms
proof (induction es arbitrary: st)
  case Nil
  then show ?case by simp
next
  case (Cons e es)
  note one = billQueries_step [OF Cons.prems, where uid = uid and e = e]
  from Cons.IH [OF one [THEN conjunct1]] one [THEN conjunct2] show ?case by auto
qed

lemma userQueries_trace:
  assumes "n < length (userQueries st)"
  shows "n < length (userQueries (foldl (tabStep uid) st es))
     \<and> (userQueries (foldl (tabStep uid) st es) ! n = userQueries st ! n
        \<or> userQueries (foldl (tabStep uid) st es) ! n = None)"
  using assms
proof (induction es arbitrary: st)
  case Nil
  then show ?case by simp
next
  case (Cons e es)
  note one = userQueries_step [OF Cons.prems, where uid = uid and e = e]
  from Cons.IH [OF one [THEN conjunct1]] one [THEN conjunct2] show ?case by auto
qed

text \<open>The response to a call that captured a populated list changes no list.\<close>

lemma bills_response_dropped:
  assumes "n < length (billQueries st)" and "billQueries st ! n = Some c" and "c \<noteq> []"
  shows "billsFollowing (tabStep uid (foldl (tabStep uid) st es) (BillsResponse n billList))
     = billsFollowing (foldl (tabStep uid) st es)"
proof -
  from billQueries_trace [OF assms(1), where uid = uid and es = es] assms(2)
  have "billQueries (foldl (tabStep uid) st es) ! n = Some c
      \<or> billQueries (foldl (tabStep uid) st es) ! n = None"
    by simp
  with assms(3) show ?thesis
    by (auto simp: billsFollowingResume_def Let_def)
qed

lemma users_response_dropped:
  assumes "n < length (userQueries st)" and "userQueries st ! n = Some c" and "c \<noteq> []"
  shows "usersFollowing (tabStep uid (foldl (tabStep uid) st es) (UsersResponse n usersList))
     = usersFollowing (foldl (tabStep uid) st es)"
proof -
  from userQueries_trace [OF assms(1), where uid = uid and es = es] assms(2)
  have "userQueries (foldl (tabStep uid) st es) ! n = Some c
      \<or> userQueries (foldl (tabStep uid) st es) ! n = None"
    by simp
  with assms(3) show ?thesis
    by (auto simp: orgsFollowingResume_def Let_def)
qed

lemma issued_on_populated_list:
  assumes "truthyString uid"
  shows "billsFollowing st \<noteq> [] \<Longrightarrow>
       billsFollowing (tabStep uid (foldl (tabStep uid) (tabStep uid st EveryRenderEffect) es)
          (BillsResponse (length (billQueries st)) billList))
       = billsFollowing (foldl (tabStep uid) (tabStep uid st EveryRenderEffect) es)"
    and "billsFollowing st \<noteq> [] \<Longrightarrow>
       billsFollowing (tabStep uid (foldl (tabStep uid) (tabStep uid st FetchFollowedItems) es)
          (BillsResponse (length (billQueries st)) billList))
       = billsFollowing (foldl (tabStep uid) (tabStep uid st FetchFollowedItems) es)"
    and "usersFollowing st \<noteq> [] \<Longrightarrow>
       usersFollowing (tabStep uid (foldl (tabStep uid) (tabStep uid st FetchFollowedItems) es)
          (UsersResponse (length (userQueries st)) usersList))
       = usersFollowing (foldl (tabStep uid) (tabStep uid st FetchFollowedItems) es)"
proof -
  assume ne: "billsFollowing st \<noteq> []"
  show "billsFollowing (tabStep uid (foldl (tabStep uid) (tabStep uid st EveryRenderEffect) es)
          (BillsResponse (length (billQueries st)) billList))
       = billsFollowing (foldl (tabStep uid) (tabStep uid st EveryRenderEffect) es)"
    by (rule bills_response_dropped [where c = "billsFollowing st"])
      (simp_all add: tab_defs assms ne)
next
  assume ne: "billsFollowing st \<noteq> []"
  show "billsFollowing (tabStep uid (foldl (tabStep uid) (tabStep uid st FetchFollowedItems) es)
          (BillsResponse (length (billQueries st)) billList))
       = billsFollowing (foldl (tabStep uid) (tabStep uid st FetchFollowedItems) es)"
    by (rule bills_response_dropped [where c = "billsFollowing st"])
      (simp_all add: tab_defs assms ne)
next
  assume ne: "usersFollowing st \<noteq> []"
  show "usersFollowing (tabStep uid (foldl (tabStep uid) (tabStep uid st FetchFollowedItems) es)
          (UsersResponse (length (userQueries st)) usersList))
       = usersFollowing (foldl (tabStep uid) (tabStep uid st FetchFollowedItems) es)"
    by (rule users_response_dropped [where c = "usersFollowing st"])
      (simp_all add: tab_defs assms ne)
qed

text \<open>
  Claim C10, as stated, fails. On mount the effect of every render and \<^verbatim>\<open>fetchFollowedItems\<close>
  both call \<^verbatim>\<open>billsFollowingQuery\<close>, and both calls capture the empty list. The first
  response, read while \<^verbatim>\<open>u1\<close> followed one bill, populates the list; the effects of the next
  render run; the second response, read after a second bill was followed, belongs to a
  call that still holds the empty list, so its guard passes and it replaces the populated
  list.
\<close>

theorem populated_list_replaced_by_later_response:
  "billsFollowing (foldl (tabStep (Some ''u1'')) followingTabMount
      [EveryRenderEffect, FetchFollowedItems,
       BillsResponse 0 (billListOf (Some ''u1'') (firestore followedWorld))])
     = [Some billH100]
   \<and> billsFollowing (foldl (tabStep (Some ''u1'')) followingTabMount
      [EveryRenderEffect, FetchFollowedItems,
       BillsResponse 0 (billListOf (Some ''u1'') (firestore followedWorld)),
       EveryRenderEffect, FetchFollowedItems,
       BillsResponse 1 (billListOf (Some ''u1'') laterStore)])
     = [Some billH100, Some billH200]"
  by (simp add: billListOf_followed billListOf_later followingTabMount_def tab_defs truthyString_def)

text \<open>
  Claim C10, amended. A call of a query callback records the list of the render that
  issued it, and keeps it until its response arrives. The response is applied only when
  that recorded list is empty and the fetched list is not; the list then becomes the
  fetched list, nothing of the old one is kept. So whenever an event changes the bills list
  or the users list, the event is the unfollow handler of that list, which resets it to the
  empty list, or the response to a call that recorded the empty list; and with a session,
  the response to a call issued while the list was populated changes nothing, whatever
  happened in between.
\<close>

theorem list_changes_only_by_reset_or_guarded_response:
  "(billsFollowing (tabStep uid st e) \<noteq> billsFollowing st
      \<or> usersFollowing (tabStep uid st e) \<noteq> usersFollowing st \<longrightarrow>
        (e = UnfollowBill \<and> billsFollowing (tabStep uid st e) = [])
      \<or> (e = UnfollowUser \<and> usersFollowing (tabStep uid st e) = [])
      \<or> (\<exists>i billList. e = BillsResponse i billList \<and> i < length (billQueries st)
            \<and> billQueries st ! i = Some [] \<and> billList \<noteq> []
            \<and> billsFollowing (tabStep uid st e) = billList)
      \<or> (\<exists>i usersList. e = UsersResponse i usersList \<and> i < length (userQueries st)
            \<and> userQueries st ! i = Some [] \<and> usersList \<noteq> []
            \<and> usersFollowing (tabStep uid st e) = usersList))
   \<and> billQueries (tabStep uid st EveryRenderEffect) =
       (if truthyString uid then billQueries st @ [Some (billsFollowing st)] else billQueries st)
   \<and> billQueries (tabStep uid st FetchFollowedItems) =
       (if truthyString uid then billQueries st @ [Some (billsFollowing st)] else billQueries st)
   \<and> userQueries (tabStep uid st FetchFollowedItems) =
       (if truthyString uid then userQueries st @ [Some (usersFollowing st)] else userQueries st)
   \<and> (n < length (billQueries st) \<longrightarrow>
        n < length (billQueries (foldl (tabStep uid) st es))
        \<and> (billQueries (foldl (tabStep uid) st es) ! n = billQueries st ! n
           \<or> billQueries (foldl (tabStep uid) st es) ! n = None))
   \<and> (n < length (userQueries st) \<longrightarrow>
        n < length (userQueries (foldl (tabStep uid) st es))
        \<and> (userQueries (foldl (tabStep uid) st es) ! n = userQueries st ! n
           \<or> userQueries (foldl (tabStep uid) st es) ! n = None))
   \<and> (truthyString uid \<and> billsFollowing st \<noteq> [] \<longrightarrow>
        billsFollowing (tabStep uid (foldl (tabStep uid) (tabStep uid st EveryRenderEffect) es)
           (BillsResponse (length (billQueries st)) billList))
        = billsFollowing (foldl (tabStep uid) (tabStep uid st EveryRenderEffect) es))
   \<and> (truthyString uid \<and> billsFollowing st \<noteq> [] \<longrightarrow>
        billsFollowing (tabStep uid (foldl (tabStep uid) (tabStep uid st FetchFollowedItems) es)
           (BillsResponse (length (billQueries st)) billList))
        = billsFollowing (foldl (tabStep uid) (tabStep uid st FetchFollowedItems) es))
   \<and> (truthyString uid \<and> usersFollowing st \<noteq> [] \<longrightarrow>
        usersFollowing (tabStep uid (foldl (tabStep uid) (tabStep uid st FetchFollowedItems) es)
           (UsersResponse (length (userQueries st)) usersList))
        = usersFollowing (foldl (tabStep uid) (tabStep uid st FetchFollowedItems) es))"
proof (intro conjI impI)
  assume "billsFollowing (tabStep uid st e) \<noteq> billsFollowing st
      \<or> usersFollowing (tabStep uid st e) \<noteq> usersFollowing st"
  then show "(e = UnfollowBill \<and> billsFollowing (tabStep uid st e) = [])
      \<or> (e = UnfollowUser \<and> usersFollowing (tabStep uid st e) = [])
      \<or> (\<exists>i billList. e = BillsResponse i billList \<and> i < length (billQueries st)
            \<and> billQueries st ! i = Some [] \<and> billList \<noteq> []
            \<and> billsFollowing (tabStep uid st e) = billList)
      \<or> (\<exists>i usersList. e = UsersResponse i usersList \<and> i < length (userQueries st)
            \<and> userQueries st ! i = Some [] \<and> usersList \<noteq> []
            \<and> usersFollowing (tabStep uid st e) = usersList)"
    by (rule list_change_cases)
next
  assume "n < length (billQueries st)"
  from billQueries_trace [OF this, where uid = uid and es = es]
  show "n < length (billQueries (foldl (tabStep uid) st es))"
    and "billQueries (foldl (tabStep uid) st es) ! n = billQueries st ! n
           \<or> billQueries (foldl (tabStep uid) st es) ! n = None"
    by (rule conjunct1, rule conjunct2)
next
  assume "n < length (userQueries st)"
  from userQueries_trace [OF this, where uid = uid and es = es]
  show "n < length (userQueries (foldl (tabStep uid) st es))"
    and "userQueries (foldl (tabStep uid) st es) ! n = userQueries st ! n
           \<or> userQueries (foldl (tabStep uid) st es) ! n = None"
    by (rule conjunct1, rule conjunct2)
next
  assume "truthyString uid \<and> billsFollowing st \<noteq> []"
  then show "billsFollowing (tabStep uid (foldl (tabStep uid) (tabStep uid st EveryRenderEffect) es)
           (BillsResponse (length (billQueries st)) billList))
        = billsFollowing (foldl (tabStep uid) (tabStep uid st EveryRenderEffect) es)"
    using issued_on_populated_list(1) by blast
next
  assume "truthyString uid \<and> billsFollowing st \<noteq> []"
  then show "billsFollowing (tabStep uid (foldl (tabStep uid) (tabStep uid st FetchFollowedItems) es)
           (BillsResponse (length (billQueries st)) billList))
        = billsFollowing (foldl (tabStep uid) (tabStep uid st FetchFollowedItems) es)"
    using issued_on_populated_list(2) by blast
next
  assume "truthyString uid \<and> usersFollowing st \<noteq> []"
  then show "usersFollowing (tabStep uid (foldl (tabStep uid) (tabStep uid st FetchFollowedItems) es)
           (UsersResponse (length (userQueries st)) usersList))
        = usersFollowing (foldl (tabStep uid) (tabStep uid st FetchFollowedItems) es)"
    using issued_on_populated_list(3) by blast
qed (rule issue_records_current_list)+

theorem list_changes_only_by_reset_or_guarded_response_witness:
  "foldl (tabStep (Some ''u1'')) followingTabMount
      [EveryRenderEffect, FetchFollowedItems, BillsResponse 0 [Some billH100]] = populatedTab
   \<and> billsFollowing (tabStep (Some ''u1'') populatedTab (BillsResponse 1 [Some billH100, Some billH200]))
       \<noteq> billsFollowing populatedTab
   \<and> billQueries populatedTab ! 1 = Some []
   \<and> billsFollowing (tabStep (Some ''u1'') populatedTab (BillsResponse 1 [Some billH100, Some billH200]))
       = [Some billH100, Some billH200]
   \<and> truthyString (Some ''u1'') \<and> billsFollowing populatedTab \<noteq> []
   \<and> billQueries (tabStep (Some ''u1'') populatedTab EveryRenderEffect)
       = [None, Some [], Some [Some billH100]]
   \<and> billsFollowing
        (tabStep (Some ''u1'')
           (foldl (tabStep (Some ''u1'')) (tabStep (Some ''u1'') populatedTab EveryRenderEffect)
              [UnfollowBill, EveryRenderEffect])
           (BillsResponse 2 [Some billH200]))
       = []"
proof -
  let ?u = "Some ''u1''"
  let ?e = "BillsResponse 1 [Some billH100, Some billH200]
     :: (BillItem option, UserLookup option) TabEvent"
  let ?es = "[UnfollowBill, EveryRenderEffect] :: (BillItem option, UserLookup option) TabEvent list"
  note inst = list_changes_only_by_reset_or_guarded_response
    [where uid = "?u" and st = populatedTab and e = "?e" and es = "?es" and n = 1
       and billList = "[Some billH200]" and usersList = "[]"]
  have reached: "foldl (tabStep ?u) followingTabMount
      [EveryRenderEffect, FetchFollowedItems, BillsResponse 0 [Some billH100]] = populatedTab"
    using populatedTab_reached by (simp add: billListOf_followed)
  have changed: "billsFollowing (tabStep ?u populatedTab ?e) \<noteq> billsFollowing populatedTab"
    by (simp add: populatedTab_def billsFollowingResume_def billH100_def billH200_def)
  have auth: "truthyString ?u"
    by (simp add: truthyString_def)
  have pop: "billsFollowing populatedTab \<noteq> []"
    by (simp add: populatedTab_def)
  from inst changed
  have guarded: "billQueries populatedTab ! 1 = Some []
      \<and> billsFollowing (tabStep ?u populatedTab ?e) = [Some billH100, Some billH200]"
    by auto
  from inst have recorded: "billQueries (tabStep ?u populatedTab EveryRenderEffect)
       = [None, Some [], Some [Some billH100]]"
    by (simp add: auth populatedTab_def)
  from inst auth pop
  have "billsFollowing (tabStep ?u (foldl (tabStep ?u) (tabStep ?u populatedTab EveryRenderEffect) ?es)
           (BillsResponse (length (billQueries populatedTab)) [Some billH200]))
        = billsFollowing (foldl (tabStep ?u) (tabStep ?u populatedTab EveryRenderEffect) ?es)"
    by blast
  then have dropped: "billsFollowing
        (tabStep ?u (foldl (tabStep ?u) (tabStep ?u populatedTab EveryRenderEffect) ?es)
           (BillsResponse 2 [Some billH200])) = []"
    by (simp add: populatedTab_def tab_defs truthyString_def)
  from reached changed guarded auth pop recorded dropped show ?thesis by blast
qed

end
